theory Spec2Isabelle
  imports Main
begin

section \<open>The notebook \<open>Azure/Train on Azure.ipynb\<close> as a sequence of cells\<close>

text \<open>
  The notebook is a flat sequence of code cells run by one Python kernel. Every cell
  reads and assigns global variables and calls into the Azure ML client library. The
  embedding keeps three things explicit:
  \<^item> the kernel's namespace: one optional value for each global variable the notebook
    assigns (\<open>None\<close> is a name that is not bound, so that reading it is a
    \<open>NameError\<close>);
  \<^item> the requests the notebook sends to the client library, in order (\<open>calls\<close>), and
    the lines it prints (\<open>stdout\<close>);
  \<^item> what the client library answers: it is not part of the repository, so it is a
    parameter (\<open>sdk\<close>), and every call into it either raises or returns.
\<close>

subsection \<open>Python values and the process environment\<close>

text \<open>
  The values the notebook reads from the environment are dynamically typed: an
  \<open>os.environ\<close> entry is always a \<open>str\<close>, a fallback is whatever literal the call passes.
\<close>

datatype pyval = PyNone | PyInt int | PyStr string

type_synonym environ = "(string \<times> string) list"

text \<open>\<open>os.environ.get(key, default)\<close>; the one-argument form has \<open>default=None\<close>.\<close>

definition os_environ_get :: "environ \<Rightarrow> string \<Rightarrow> pyval \<Rightarrow> pyval" where
  "os_environ_get env key dflt =
     (case map_of env key of None \<Rightarrow> dflt | Some s \<Rightarrow> PyStr s)"

text \<open>Decimal digits of a natural number, for \<open>'%s' % n\<close>.\<close>

fun dec_nat :: "nat \<Rightarrow> string" where
  "dec_nat n =
     (if n < 10 then [char_of (48 + n)]
      else dec_nat (n div 10) @ [char_of (48 + n mod 10)])"

declare dec_nat.simps [simp del]

text \<open>\<open>str(v)\<close>, which is what \<open>'%s' % v\<close> inserts.\<close>

fun py_str :: "pyval \<Rightarrow> string" where
  "py_str PyNone = ''None''"
| "py_str (PyInt i) = (if i < 0 then CHR ''-'' # dec_nat (nat (- i)) else dec_nat (nat i))"
| "py_str (PyStr s) = s"

text \<open>
  \<open>os.path.join(a, b)\<close> on a POSIX host: an absolute \<open>b\<close> replaces \<open>a\<close>; otherwise
  the two are joined by one separator unless \<open>a\<close> is empty or already ends with one.
\<close>

definition os_path_join :: "string \<Rightarrow> string \<Rightarrow> string" where
  "os_path_join a b =
     (if b \<noteq> [] \<and> hd b = CHR ''/'' then b
      else if a = [] \<or> last a = CHR ''/'' then a @ b
      else a @ ''/'' @ b)"

definition os_pardir :: string where
  "os_pardir = ''..''"

subsection \<open>Remote resource handles\<close>

text \<open>
  The class of a compute target object: the notebook tests for \<open>AmlCompute\<close> with
  \<open>type(compute_target) is AmlCompute\<close>; every other class of the library is named by
  its class name.
\<close>

datatype compute_class = AmlCompute | OtherCompute string

record compute_target =
  ct_class :: compute_class
  ct_name :: string

text \<open>
  Truth value of a compute target object: the objects are plain class instances, which
  Python takes as true.
\<close>

definition truthy :: "compute_target \<Rightarrow> bool" where
  "truthy ct = True"

record datastore =
  datastore_type :: string
  account_name :: string
  container_name :: string

record workspace =
  ws_name :: string
  ws_subscription_id :: pyval
  ws_resource_group :: string
  compute_targets :: "(string \<times> compute_target) list"
  default_datastore :: datastore

text \<open>
  Dictionary lookup \<open>key in d\<close> / \<open>d[key]\<close> on a dictionary with \<open>str\<close> keys: a key
  that is not a \<open>str\<close> is never present.
\<close>

fun dict_get :: "(string \<times> 'v) list \<Rightarrow> pyval \<Rightarrow> 'v option" where
  "dict_get d (PyStr s) = map_of d s"
| "dict_get d PyNone = None"
| "dict_get d (PyInt i) = None"

text \<open>The object built by \<open>AmlCompute.provisioning_configuration(vm_size, min_nodes, max_nodes)\<close>:
  it holds the three arguments as they are given.\<close>

record provisioning_configuration =
  pc_vm_size :: pyval
  pc_min_nodes :: pyval
  pc_max_nodes :: pyval

datatype reference_mode = Mount | Download | Upload

text \<open>\<open>ds.path(p)\<close> builds a reference to a path on the datastore; \<open>as_mount()\<close> sets
  its mode. Both only build an object.\<close>

record data_reference =
  dr_datastore :: datastore
  dr_path_on_datastore :: string
  dr_mode :: reference_mode

definition ds_path :: "datastore \<Rightarrow> string \<Rightarrow> data_reference" where
  "ds_path d p = \<lparr>dr_datastore = d, dr_path_on_datastore = p, dr_mode = Mount\<rparr>"

definition as_mount :: "data_reference \<Rightarrow> data_reference" where
  "as_mount r = r\<lparr>dr_mode := Mount\<rparr>"

record aml_experiment =
  exp_workspace :: workspace
  exp_name :: string

datatype param = ParamRef data_reference | ParamStr string

text \<open>The job descriptor: the arguments of the \<open>TensorFlow(...)\<close> estimator.\<close>

record estimator =
  source_directory :: string
  est_script_params :: "(string \<times> param) list"
  est_compute_target :: compute_target
  entry_script :: string
  conda_packages :: "string list"
  pip_packages :: "string list"
  use_gpu :: bool

record run =
  run_experiment :: string
  run_id :: string

subsection \<open>The client library\<close>

datatype error = NameError string | ServiceError string

text \<open>
  One constructor for each request the notebook's text sends to the client library.
  \<open>upload_call\<close> is the call of the line that the notebook has commented out
  (\<open>ds.upload(src_dir, target_path, overwrite, show_progress)\<close>).
\<close>

datatype sdk_call =
    Workspace_get_call string pyval string
  | ComputeTarget_create_call workspace pyval provisioning_configuration
  | wait_for_completion_call compute_target bool pyval int
  | get_default_datastore_call workspace
  | upload_call datastore string string bool bool
  | submit_call aml_experiment estimator
  | cancel_call run

text \<open>
  The answers of the client library. \<open>wait_for_completion\<close> returns nothing; with
  \<open>show_output=True\<close> it reports the state of the cluster by printing, so its answer
  is the lines it prints.
\<close>

record sdk =
  Workspace_get :: "string \<Rightarrow> pyval \<Rightarrow> string \<Rightarrow> error + workspace"
  ComputeTarget_create ::
    "workspace \<Rightarrow> pyval \<Rightarrow> provisioning_configuration \<Rightarrow> error + compute_target"
  wait_for_completion :: "compute_target \<Rightarrow> bool \<Rightarrow> pyval \<Rightarrow> int \<Rightarrow> error + string list"
  Experiment_submit :: "aml_experiment \<Rightarrow> estimator \<Rightarrow> error + run"
  Run_cancel :: "run \<Rightarrow> error + unit"

subsection \<open>The kernel\<close>

record kernel =
  var_ws :: "workspace option"
  var_compute_name :: "pyval option"
  var_compute_min_nodes :: "pyval option"
  var_compute_max_nodes :: "pyval option"
  var_vm_size :: "pyval option"
  var_provisioning_config :: "provisioning_configuration option"
  var_compute_target :: "compute_target option"
  var_ds :: "datastore option"
  var_experiment_name :: "string option"
  var_exp :: "aml_experiment option"
  var_script_params :: "(string \<times> param) list option"
  var_tf_est :: "estimator option"
  var_run :: "run option"
  calls :: "sdk_call list"
  stdout :: "string list"

definition fresh_kernel :: kernel where
  "fresh_kernel =
     \<lparr>var_ws = None, var_compute_name = None, var_compute_min_nodes = None,
      var_compute_max_nodes = None, var_vm_size = None, var_provisioning_config = None,
      var_compute_target = None, var_ds = None, var_experiment_name = None,
      var_exp = None, var_script_params = None, var_tf_est = None, var_run = None,
      calls = [], stdout = []\<rparr>"

definition request :: "sdk_call \<Rightarrow> kernel \<Rightarrow> kernel" where
  "request c k = k\<lparr>calls := calls k @ [c]\<rparr>"

definition print :: "string \<Rightarrow> kernel \<Rightarrow> kernel" where
  "print line k = k\<lparr>stdout := stdout k @ [line]\<rparr>"

subsection \<open>Cell 2: the workspace\<close>

text \<open>
  \<^verbatim>\<open>
  ws = Workspace.get(name='dlwp-ml-1',
                     subscription_id=os.environ.get('AZURE_SUBSCRIPTION_ID'),
                     resource_group='DLWP')
  \<close>
\<close>

definition subscription_id :: "environ \<Rightarrow> pyval" where
  "subscription_id env = os_environ_get env ''AZURE_SUBSCRIPTION_ID'' PyNone"

definition cell_workspace :: "sdk \<Rightarrow> environ \<Rightarrow> kernel \<Rightarrow> error option \<times> kernel" where
  "cell_workspace s env k =
     (let k1 = request (Workspace_get_call ''dlwp-ml-1'' (subscription_id env) ''DLWP'') k
      in case Workspace_get s ''dlwp-ml-1'' (subscription_id env) ''DLWP'' of
           Inl e \<Rightarrow> (Some e, k1)
         | Inr w \<Rightarrow> (None, k1\<lparr>var_ws := Some w\<rparr>))"

subsection \<open>Cell 3: the compute cluster\<close>

definition compute_name :: "environ \<Rightarrow> pyval" where
  "compute_name env = os_environ_get env ''AML_COMPUTE_CLUSTER_NAME'' (PyStr ''dlwp-compute-1'')"

definition compute_min_nodes :: "environ \<Rightarrow> pyval" where
  "compute_min_nodes env = os_environ_get env ''AML_COMPUTE_CLUSTER_MIN_NODES'' (PyInt 0)"

definition compute_max_nodes :: "environ \<Rightarrow> pyval" where
  "compute_max_nodes env = os_environ_get env ''AML_COMPUTE_CLUSTER_MAX_NODES'' (PyInt 2)"

definition vm_size :: "environ \<Rightarrow> pyval" where
  "vm_size env = os_environ_get env ''AML_COMPUTE_CLUSTER_SKU'' (PyStr ''STANDARD_NV6'')"

definition provisioning_config :: "environ \<Rightarrow> provisioning_configuration" where
  "provisioning_config env =
     \<lparr>pc_vm_size = vm_size env, pc_min_nodes = compute_min_nodes env,
      pc_max_nodes = compute_max_nodes env\<rparr>"

text \<open>Lines 78 to 83: the four assignments from the environment.\<close>

definition assign_config :: "environ \<Rightarrow> kernel \<Rightarrow> kernel" where
  "assign_config env k =
     k\<lparr>var_compute_name := Some (compute_name env),
       var_compute_min_nodes := Some (compute_min_nodes env),
       var_compute_max_nodes := Some (compute_max_nodes env),
       var_vm_size := Some (vm_size env)\<rparr>"

text \<open>
  Lines 85 to 100.
  \<^verbatim>\<open>
  if compute_name in ws.compute_targets:
      compute_target = ws.compute_targets[compute_name]
      if compute_target and type(compute_target) is AmlCompute:
          print('found compute target (%s)' % compute_name)
  else:
      print('creating a new compute target (%s)' % compute_name)
      provisioning_config = AmlCompute.provisioning_configuration(vm_size = vm_size,
                                min_nodes = compute_min_nodes, max_nodes = compute_max_nodes)
      compute_target = ComputeTarget.create(ws, compute_name, provisioning_config)
      compute_target.wait_for_completion(show_output=True, min_node_count=None,
                                         timeout_in_minutes=10)
  \<close>
\<close>

definition cell_compute :: "sdk \<Rightarrow> environ \<Rightarrow> kernel \<Rightarrow> error option \<times> kernel" where
  "cell_compute s env k0 =
     (let k = assign_config env k0 in
      case var_ws k of
        None \<Rightarrow> (Some (NameError ''ws''), k)
      | Some w \<Rightarrow>
          (case dict_get (compute_targets w) (compute_name env) of
             Some ct \<Rightarrow>
               (let k1 = k\<lparr>var_compute_target := Some ct\<rparr> in
                if truthy ct \<and> ct_class ct = AmlCompute
                then (None, print (''found compute target ('' @ py_str (compute_name env) @ '')'') k1)
                else (None, k1))
           | None \<Rightarrow>
               (let k1 = print (''creating a new compute target ('' @ py_str (compute_name env) @ '')'') k;
                    k2 = k1\<lparr>var_provisioning_config := Some (provisioning_config env)\<rparr>;
                    k3 = request (ComputeTarget_create_call w (compute_name env) (provisioning_config env)) k2
                in case ComputeTarget_create s w (compute_name env) (provisioning_config env) of
                     Inl e \<Rightarrow> (Some e, k3)
                   | Inr ct \<Rightarrow>
                       (let k4 = k3\<lparr>var_compute_target := Some ct\<rparr>;
                            k5 = request (wait_for_completion_call ct True PyNone 10) k4
                        in case wait_for_completion s ct True PyNone 10 of
                             Inl e \<Rightarrow> (Some e, k5)
                           | Inr out \<Rightarrow> (None, k5\<lparr>stdout := stdout k5 @ out\<rparr>)))))"

subsection \<open>Cell 4: the datastore\<close>

text \<open>
  \<^verbatim>\<open>
  ds = ws.get_default_datastore()
  print(ds.datastore_type, ds.account_name, ds.container_name)
  # ds.upload(src_dir=data_folder, target_path='DLWP', overwrite=True, show_progress=True)
  \<close>
  The last line is a comment: the cell sends no \<open>upload_call\<close>.
\<close>

definition cell_datastore :: "kernel \<Rightarrow> error option \<times> kernel" where
  "cell_datastore k =
     (case var_ws k of
        None \<Rightarrow> (Some (NameError ''ws''), k)
      | Some w \<Rightarrow>
          (let d = default_datastore w;
               k1 = (request (get_default_datastore_call w) k)\<lparr>var_ds := Some d\<rparr>
           in (None, print (datastore_type d @ '' '' @ account_name d @ '' '' @ container_name d) k1)))"

subsection \<open>Cell 5: the experiment\<close>

text \<open>
  \<^verbatim>\<open>
  experiment_name = 'dlwp'
  exp = Experiment(workspace=ws, name=experiment_name)
  \<close>
\<close>

definition experiment_name :: string where
  "experiment_name = ''dlwp''"

definition cell_experiment :: "kernel \<Rightarrow> error option \<times> kernel" where
  "cell_experiment k0 =
     (let k = k0\<lparr>var_experiment_name := Some experiment_name\<rparr> in
      case var_ws k of
        None \<Rightarrow> (Some (NameError ''ws''), k)
      | Some w \<Rightarrow>
          (None, k\<lparr>var_exp := Some \<lparr>exp_workspace = w, exp_name = experiment_name\<rparr>\<rparr>))"

subsection \<open>Cell 6: the estimator\<close>

text \<open>
  \<^verbatim>\<open>
  script_params = {
      '--root-directory': ds.path('DLWP').as_mount(),
      '--predictor-file': 'cfs_1979-2010_hgt-thick_300-500-700_NH_T2.nc',
      '--model-file': 'dlwp_tau-lstm',
      '--log-directory': 'logs/tau-lstm',
      '--temp-dir': '/mnt/tmp'
  }
  tf_est = TensorFlow(source_directory=os.path.join(os.getcwd(), os.pardir),
                      script_params=script_params,
                      compute_target=compute_target,
                      entry_script=os.path.join(os.getcwd(), 'train_tf.py'),
                      conda_packages=['scikit-learn', 'netCDF4', 'dask', 'xarray'],
                      pip_packages=['keras'],
                      use_gpu=True)
  \<close>
  A dictionary literal keeps its keys in the order they are written. \<open>cwd\<close> is what
  \<open>os.getcwd()\<close> returns.
\<close>

definition script_params :: "datastore \<Rightarrow> (string \<times> param) list" where
  "script_params d =
     [(''--root-directory'', ParamRef (as_mount (ds_path d ''DLWP''))),
      (''--predictor-file'', ParamStr ''cfs_1979-2010_hgt-thick_300-500-700_NH_T2.nc''),
      (''--model-file'', ParamStr ''dlwp_tau-lstm''),
      (''--log-directory'', ParamStr ''logs/tau-lstm''),
      (''--temp-dir'', ParamStr ''/mnt/tmp'')]"

definition tf_est :: "string \<Rightarrow> (string \<times> param) list \<Rightarrow> compute_target \<Rightarrow> estimator" where
  "tf_est cwd sp ct =
     \<lparr>source_directory = os_path_join cwd os_pardir,
      est_script_params = sp,
      est_compute_target = ct,
      entry_script = os_path_join cwd ''train_tf.py'',
      conda_packages = [''scikit-learn'', ''netCDF4'', ''dask'', ''xarray''],
      pip_packages = [''keras''],
      use_gpu = True\<rparr>"

definition cell_estimator :: "string \<Rightarrow> kernel \<Rightarrow> error option \<times> kernel" where
  "cell_estimator cwd k =
     (case var_ds k of
        None \<Rightarrow> (Some (NameError ''ds''), k)
      | Some d \<Rightarrow>
          (let k1 = k\<lparr>var_script_params := Some (script_params d)\<rparr> in
           case var_compute_target k1 of
             None \<Rightarrow> (Some (NameError ''compute_target''), k1)
           | Some ct \<Rightarrow> (None, k1\<lparr>var_tf_est := Some (tf_est cwd (script_params d) ct)\<rparr>)))"

subsection \<open>Cells 7 and 8: submitting and cancelling the run\<close>

text \<open>
  \<^verbatim>\<open>
  run = exp.submit(config=tf_est)
  run
  \<close>
\<close>

definition cell_submit :: "sdk \<Rightarrow> kernel \<Rightarrow> error option \<times> kernel" where
  "cell_submit s k =
     (case var_exp k of
        None \<Rightarrow> (Some (NameError ''exp''), k)
      | Some e \<Rightarrow>
          (case var_tf_est k of
             None \<Rightarrow> (Some (NameError ''tf_est''), k)
           | Some est \<Rightarrow>
               (let k1 = request (submit_call e est) k in
                case Experiment_submit s e est of
                  Inl err \<Rightarrow> (Some err, k1)
                | Inr r \<Rightarrow> (None, k1\<lparr>var_run := Some r\<rparr>))))"

text \<open>
  \<^verbatim>\<open>
  run.cancel()
  \<close>
  The cell is this one call; nothing follows it.
\<close>

definition cell_cancel :: "sdk \<Rightarrow> kernel \<Rightarrow> error option \<times> kernel" where
  "cell_cancel s k =
     (case var_run k of
        None \<Rightarrow> (Some (NameError ''run''), k)
      | Some r \<Rightarrow>
          (let k1 = request (cancel_call r) k in
           case Run_cancel s r of
             Inl err \<Rightarrow> (Some err, k1)
           | Inr u \<Rightarrow> (None, k1)))"

subsection \<open>Running the cells in order\<close>

text \<open>A cell runs only when every cell before it has ended without an exception.\<close>

definition then_cell ::
  "error option \<times> kernel \<Rightarrow> (kernel \<Rightarrow> error option \<times> kernel) \<Rightarrow> error option \<times> kernel" where
  "then_cell r c = (case fst r of Some e \<Rightarrow> r | None \<Rightarrow> c (snd r))"

definition run_all :: "sdk \<Rightarrow> environ \<Rightarrow> string \<Rightarrow> kernel \<Rightarrow> error option \<times> kernel" where
  "run_all s env cwd k =
     then_cell (then_cell (then_cell (then_cell (then_cell (then_cell
       (cell_workspace s env k)
       (cell_compute s env))
       cell_datastore)
       cell_experiment)
       (cell_estimator cwd))
       (cell_submit s))
       (cell_cancel s)"

subsection \<open>Reading the requests\<close>

text \<open>The creation requests, the waits, the uploads and the cancellations among a list
  of requests, in order.\<close>

fun creation_requests :: "sdk_call list \<Rightarrow> (workspace \<times> pyval \<times> provisioning_configuration) list" where
  "creation_requests [] = []"
| "creation_requests (ComputeTarget_create_call w n c # cs) = (w, n, c) # creation_requests cs"
| "creation_requests (_ # cs) = creation_requests cs"

fun wait_requests :: "sdk_call list \<Rightarrow> (compute_target \<times> bool \<times> pyval \<times> int) list" where
  "wait_requests [] = []"
| "wait_requests (wait_for_completion_call ct b m t # cs) = (ct, b, m, t) # wait_requests cs"
| "wait_requests (_ # cs) = wait_requests cs"

fun upload_requests :: "sdk_call list \<Rightarrow> sdk_call list" where
  "upload_requests [] = []"
| "upload_requests (upload_call d a b c e # cs) = upload_call d a b c e # upload_requests cs"
| "upload_requests (_ # cs) = upload_requests cs"

fun submit_requests :: "sdk_call list \<Rightarrow> (aml_experiment \<times> estimator) list" where
  "submit_requests [] = []"
| "submit_requests (submit_call e est # cs) = (e, est) # submit_requests cs"
| "submit_requests (_ # cs) = submit_requests cs"

fun cancel_requests :: "sdk_call list \<Rightarrow> run list" where
  "cancel_requests [] = []"
| "cancel_requests (cancel_call r # cs) = r # cancel_requests cs"
| "cancel_requests (_ # cs) = cancel_requests cs"

subsection \<open>A concrete workspace and client library\<close>

text \<open>
  Concrete values on which the theorems below are instantiated. The datastore and the
  run are the ones the notebook's saved outputs show; the client library answers every
  call, and reports a timeout from the wait.
\<close>

definition demo_datastore :: datastore where
  "demo_datastore =
     \<lparr>datastore_type = ''AzureBlob'', account_name = ''dlwpml10633119839'',
      container_name = ''azureml-blobstore-ba10431a-baca-4271-b9e8-283bd838c07e''\<rparr>"

definition demo_target :: "compute_class \<Rightarrow> compute_target" where
  "demo_target c = \<lparr>ct_class = c, ct_name = ''dlwp-compute-1''\<rparr>"

definition demo_workspace :: "(string \<times> compute_target) list \<Rightarrow> workspace" where
  "demo_workspace cts =
     \<lparr>ws_name = ''dlwp-ml-1'', ws_subscription_id = PyNone, ws_resource_group = ''DLWP'',
      compute_targets = cts, default_datastore = demo_datastore\<rparr>"

definition demo_run :: run where
  "demo_run = \<lparr>run_experiment = ''dlwp'', run_id = ''dlwp_1553550932_94c28310''\<rparr>"

definition demo_sdk :: sdk where
  "demo_sdk =
     \<lparr>Workspace_get = (\<lambda>n sub g. Inr (demo_workspace [])),
      ComputeTarget_create = (\<lambda>w n c. Inr (demo_target AmlCompute)),
      wait_for_completion = (\<lambda>ct out m t. Inr [''Wait timeout has been reached'']),
      Experiment_submit = (\<lambda>e est. Inr demo_run),
      Run_cancel = (\<lambda>r. Inr ())\<rparr>"

section \<open>Properties\<close>

lemmas config_defs = compute_name_def compute_min_nodes_def compute_max_nodes_def vm_size_def
  provisioning_config_def os_environ_get_def

lemma creation_requests_append:
  "creation_requests (xs @ ys) = creation_requests xs @ creation_requests ys"
  by (induction xs rule: creation_requests.induct) simp_all

lemma upload_requests_append:
  "upload_requests (xs @ ys) = upload_requests xs @ upload_requests ys"
  by (induction xs rule: upload_requests.induct) simp_all

lemma submit_requests_append:
  "submit_requests (xs @ ys) = submit_requests xs @ submit_requests ys"
  by (induction xs rule: submit_requests.induct) simp_all

subsection \<open>The compute provisioner\<close>

text \<open>
  C1. When the workspace's compute-target dictionary holds the configured cluster name
  and the entry is an \<open>AmlCompute\<close> object, the cell ends without an exception, sends
  no request at all (so no creation request and no wait), and leaves \<open>compute_target\<close>
  bound to that entry.
\<close>

theorem provisioner_reuses_existing:
  assumes "var_ws k = Some w"
    and "dict_get (compute_targets w) (compute_name env) = Some ct"
    and "ct_class ct = AmlCompute"
  shows "fst (cell_compute s env k) = None
       \<and> calls (snd (cell_compute s env k)) = calls k
       \<and> creation_requests (calls (snd (cell_compute s env k))) = creation_requests (calls k)
       \<and> wait_requests (calls (snd (cell_compute s env k))) = wait_requests (calls k)
       \<and> var_compute_target (snd (cell_compute s env k)) = Some ct"
  using assms by (simp add: cell_compute_def assign_config_def print_def truthy_def)

theorem provisioner_reuses_existing_witness:
  "var_ws (fresh_kernel\<lparr>var_ws := Some (demo_workspace [(''dlwp-compute-1'', demo_target AmlCompute)])\<rparr>)
     = Some (demo_workspace [(''dlwp-compute-1'', demo_target AmlCompute)])
   \<and> dict_get (compute_targets (demo_workspace [(''dlwp-compute-1'', demo_target AmlCompute)]))
        (compute_name []) = Some (demo_target AmlCompute)
   \<and> ct_class (demo_target AmlCompute) = AmlCompute
   \<and> fst (cell_compute demo_sdk []
        (fresh_kernel\<lparr>var_ws := Some (demo_workspace [(''dlwp-compute-1'', demo_target AmlCompute)])\<rparr>)) = None
   \<and> calls (snd (cell_compute demo_sdk []
        (fresh_kernel\<lparr>var_ws := Some (demo_workspace [(''dlwp-compute-1'', demo_target AmlCompute)])\<rparr>))) = []
   \<and> var_compute_target (snd (cell_compute demo_sdk []
        (fresh_kernel\<lparr>var_ws := Some (demo_workspace [(''dlwp-compute-1'', demo_target AmlCompute)])\<rparr>)))
       = Some (demo_target AmlCompute)"
proof -
  let ?w = "demo_workspace [(''dlwp-compute-1'', demo_target AmlCompute)]"
  let ?k = "fresh_kernel\<lparr>var_ws := Some ?w\<rparr>"
  have h1: "var_ws ?k = Some ?w" by simp
  have h2: "dict_get (compute_targets ?w) (compute_name []) = Some (demo_target AmlCompute)"
    by (simp add: demo_workspace_def config_defs)
  have h3: "ct_class (demo_target AmlCompute) = AmlCompute"
    by (simp add: demo_target_def)
  have c: "calls ?k = []" by (simp add: fresh_kernel_def)
  show ?thesis
    using provisioner_reuses_existing [OF h1 h2 h3, of demo_sdk] h1 h2 h3 c by simp
qed

text \<open>
  C2. When the workspace's compute-target dictionary does not hold the configured cluster
  name, the cell sends exactly one creation request, whatever the client library
  answers, and the request carries the configured VM size, minimum and maximum node
  counts: the values of the cell's variables \<open>vm_size\<close>, \<open>compute_min_nodes\<close> and
  \<open>compute_max_nodes\<close>.
\<close>

theorem provisioner_creates_when_absent:
  assumes "var_ws k = Some w"
    and "dict_get (compute_targets w) (compute_name env) = None"
  shows "creation_requests (calls (snd (cell_compute s env k))) =
           creation_requests (calls k) @
             [(w, compute_name env,
               \<lparr>pc_vm_size = vm_size env, pc_min_nodes = compute_min_nodes env,
                pc_max_nodes = compute_max_nodes env\<rparr>)]
       \<and> var_vm_size (snd (cell_compute s env k)) = Some (vm_size env)
       \<and> var_compute_min_nodes (snd (cell_compute s env k)) = Some (compute_min_nodes env)
       \<and> var_compute_max_nodes (snd (cell_compute s env k)) = Some (compute_max_nodes env)"
  using assms
  by (simp add: cell_compute_def assign_config_def print_def request_def Let_def
      provisioning_config_def creation_requests_append split: sum.splits)

theorem provisioner_creates_when_absent_witness:
  "var_ws (fresh_kernel\<lparr>var_ws := Some (demo_workspace [])\<rparr>) = Some (demo_workspace [])
   \<and> dict_get (compute_targets (demo_workspace [])) (compute_name []) = None
   \<and> creation_requests (calls (snd (cell_compute demo_sdk []
        (fresh_kernel\<lparr>var_ws := Some (demo_workspace [])\<rparr>)))) =
       [(demo_workspace [], PyStr ''dlwp-compute-1'',
         \<lparr>pc_vm_size = PyStr ''STANDARD_NV6'', pc_min_nodes = PyInt 0, pc_max_nodes = PyInt 2\<rparr>)]"
proof -
  let ?w = "demo_workspace []"
  let ?k = "fresh_kernel\<lparr>var_ws := Some ?w\<rparr>"
  have h1: "var_ws ?k = Some ?w" by simp
  have h2: "dict_get (compute_targets ?w) (compute_name []) = None"
    by (simp add: demo_workspace_def config_defs)
  have c: "calls ?k = []" by (simp add: fresh_kernel_def)
  show ?thesis
    using provisioner_creates_when_absent [OF h1 h2, of demo_sdk] h1 h2 c
    by (simp add: config_defs)
qed

text \<open>
  C3, as the specification states it: with the configured name present and its entry not
  an \<open>AmlCompute\<close> object, the cell would go on with \<open>compute_target\<close> not bound. It
  does not: line 86 assigns the entry before line 87 looks at its type. On a workspace
  whose entry \<open>dlwp-compute-1\<close> is a \<open>RemoteCompute\<close> object, \<open>compute_target\<close> is bound
  to that object after the cell.
\<close>

theorem wrong_type_target_is_bound:
  "dict_get (compute_targets (demo_workspace [(''dlwp-compute-1'', demo_target (OtherCompute ''RemoteCompute''))]))
       (compute_name []) = Some (demo_target (OtherCompute ''RemoteCompute''))
   \<and> ct_class (demo_target (OtherCompute ''RemoteCompute'')) \<noteq> AmlCompute
   \<and> var_compute_target (snd (cell_compute demo_sdk []
        (fresh_kernel\<lparr>var_ws := Some
           (demo_workspace [(''dlwp-compute-1'', demo_target (OtherCompute ''RemoteCompute''))])\<rparr>)))
       = Some (demo_target (OtherCompute ''RemoteCompute''))"
  by (simp add: cell_compute_def assign_config_def config_defs demo_workspace_def demo_target_def
      fresh_kernel_def)

text \<open>
  C3, amended. With the configured name present and its entry not an \<open>AmlCompute\<close>
  object, the cell ends without an exception, sends no request (no creation request, no
  wait), prints nothing, and leaves \<open>compute_target\<close> bound to the existing entry of the
  other type.
\<close>

theorem wrong_type_target_is_kept:
  assumes "var_ws k = Some w"
    and "dict_get (compute_targets w) (compute_name env) = Some ct"
    and "ct_class ct \<noteq> AmlCompute"
  shows "fst (cell_compute s env k) = None
       \<and> calls (snd (cell_compute s env k)) = calls k
       \<and> stdout (snd (cell_compute s env k)) = stdout k
       \<and> var_compute_target (snd (cell_compute s env k)) = Some ct"
  using assms by (simp add: cell_compute_def assign_config_def)

theorem wrong_type_target_is_kept_witness:
  "var_ws (fresh_kernel\<lparr>var_ws := Some
      (demo_workspace [(''dlwp-compute-1'', demo_target (OtherCompute ''RemoteCompute''))])\<rparr>)
     = Some (demo_workspace [(''dlwp-compute-1'', demo_target (OtherCompute ''RemoteCompute''))])
   \<and> dict_get (compute_targets (demo_workspace [(''dlwp-compute-1'', demo_target (OtherCompute ''RemoteCompute''))]))
        (compute_name []) = Some (demo_target (OtherCompute ''RemoteCompute''))
   \<and> ct_class (demo_target (OtherCompute ''RemoteCompute'')) \<noteq> AmlCompute
   \<and> fst (cell_compute demo_sdk [] (fresh_kernel\<lparr>var_ws := Some
        (demo_workspace [(''dlwp-compute-1'', demo_target (OtherCompute ''RemoteCompute''))])\<rparr>)) = None
   \<and> calls (snd (cell_compute demo_sdk [] (fresh_kernel\<lparr>var_ws := Some
        (demo_workspace [(''dlwp-compute-1'', demo_target (OtherCompute ''RemoteCompute''))])\<rparr>))) = []
   \<and> stdout (snd (cell_compute demo_sdk [] (fresh_kernel\<lparr>var_ws := Some
        (demo_workspace [(''dlwp-compute-1'', demo_target (OtherCompute ''RemoteCompute''))])\<rparr>))) = []"
proof -
  let ?ct = "demo_target (OtherCompute ''RemoteCompute'')"
  let ?w = "demo_workspace [(''dlwp-compute-1'', ?ct)]"
  let ?k = "fresh_kernel\<lparr>var_ws := Some ?w\<rparr>"
  have h1: "var_ws ?k = Some ?w" by simp
  have h2: "dict_get (compute_targets ?w) (compute_name []) = Some ?ct"
    by (simp add: demo_workspace_def config_defs)
  have h3: "ct_class ?ct \<noteq> AmlCompute"
    by (simp add: demo_target_def)
  have c: "calls ?k = [] \<and> stdout ?k = []" by (simp add: fresh_kernel_def)
  show ?thesis
    using wrong_type_target_is_kept [OF h1 h2 h3, of demo_sdk] h1 h2 h3 c by simp
qed

subsection \<open>Configuration from the environment\<close>

text \<open>
  C4. When none of the four compute-cluster environment variables is set, the cell's
  configuration variables hold the literal defaults: cluster name \<open>dlwp-compute-1\<close>,
  minimum nodes \<open>0\<close>, maximum nodes \<open>2\<close>, VM size \<open>STANDARD_NV6\<close>. The four
  assignments come first in the cell, so this holds on every path through it.
\<close>

theorem unset_environment_gives_defaults:
  assumes "map_of env ''AML_COMPUTE_CLUSTER_NAME'' = None"
    and "map_of env ''AML_COMPUTE_CLUSTER_MIN_NODES'' = None"
    and "map_of env ''AML_COMPUTE_CLUSTER_MAX_NODES'' = None"
    and "map_of env ''AML_COMPUTE_CLUSTER_SKU'' = None"
  shows "var_compute_name (snd (cell_compute s env k)) = Some (PyStr ''dlwp-compute-1'')
       \<and> var_compute_min_nodes (snd (cell_compute s env k)) = Some (PyInt 0)
       \<and> var_compute_max_nodes (snd (cell_compute s env k)) = Some (PyInt 2)
       \<and> var_vm_size (snd (cell_compute s env k)) = Some (PyStr ''STANDARD_NV6'')"
  using assms
  by (simp add: cell_compute_def assign_config_def print_def request_def Let_def config_defs
      split: option.splits sum.splits)

theorem unset_environment_gives_defaults_witness:
  "map_of [(''HOME'', ''/root'')] ''AML_COMPUTE_CLUSTER_NAME'' = None
   \<and> map_of [(''HOME'', ''/root'')] ''AML_COMPUTE_CLUSTER_MIN_NODES'' = None
   \<and> map_of [(''HOME'', ''/root'')] ''AML_COMPUTE_CLUSTER_MAX_NODES'' = None
   \<and> map_of [(''HOME'', ''/root'')] ''AML_COMPUTE_CLUSTER_SKU'' = None
   \<and> var_compute_name (snd (cell_compute demo_sdk [(''HOME'', ''/root'')] fresh_kernel))
       = Some (PyStr ''dlwp-compute-1'')
   \<and> var_compute_min_nodes (snd (cell_compute demo_sdk [(''HOME'', ''/root'')] fresh_kernel))
       = Some (PyInt 0)
   \<and> var_compute_max_nodes (snd (cell_compute demo_sdk [(''HOME'', ''/root'')] fresh_kernel))
       = Some (PyInt 2)
   \<and> var_vm_size (snd (cell_compute demo_sdk [(''HOME'', ''/root'')] fresh_kernel))
       = Some (PyStr ''STANDARD_NV6'')"
proof -
  let ?env = "[(''HOME'', ''/root'')]"
  have h1: "map_of ?env ''AML_COMPUTE_CLUSTER_NAME'' = None" by simp
  have h2: "map_of ?env ''AML_COMPUTE_CLUSTER_MIN_NODES'' = None" by simp
  have h3: "map_of ?env ''AML_COMPUTE_CLUSTER_MAX_NODES'' = None" by simp
  have h4: "map_of ?env ''AML_COMPUTE_CLUSTER_SKU'' = None" by simp
  show ?thesis
    using unset_environment_gives_defaults [OF h1 h2 h3 h4, of demo_sdk fresh_kernel] h1 h2 h3 h4
    by simp
qed

subsection \<open>The job descriptor\<close>

text \<open>
  C5. With \<open>ds\<close>, \<open>compute_target\<close> and \<open>exp\<close> bound, running the estimator cell and
  then the submission cell sends exactly one submission, and the job descriptor it
  carries has exactly the five flags \<open>--root-directory\<close>, \<open>--predictor-file\<close>,
  \<open>--model-file\<close>, \<open>--log-directory\<close>, \<open>--temp-dir\<close> with the notebook's values (the
  first one the mount reference to \<open>DLWP\<close> on the datastore), the GPU flag true, the
  conda packages scikit-learn, netCDF4, dask, xarray and the pip package keras.
\<close>

theorem job_descriptor_submitted:
  assumes "var_ds k = Some d"
    and "var_compute_target k = Some ct"
    and "var_exp k = Some e"
  shows "submit_requests (calls (snd (then_cell (cell_estimator cwd k) (cell_submit s)))) =
           submit_requests (calls k) @ [(e, tf_est cwd (script_params d) ct)]
       \<and> est_script_params (tf_est cwd (script_params d) ct) =
           [(''--root-directory'',
               ParamRef \<lparr>dr_datastore = d, dr_path_on_datastore = ''DLWP'', dr_mode = Mount\<rparr>),
            (''--predictor-file'', ParamStr ''cfs_1979-2010_hgt-thick_300-500-700_NH_T2.nc''),
            (''--model-file'', ParamStr ''dlwp_tau-lstm''),
            (''--log-directory'', ParamStr ''logs/tau-lstm''),
            (''--temp-dir'', ParamStr ''/mnt/tmp'')]
       \<and> use_gpu (tf_est cwd (script_params d) ct) = True
       \<and> conda_packages (tf_est cwd (script_params d) ct) =
           [''scikit-learn'', ''netCDF4'', ''dask'', ''xarray'']
       \<and> pip_packages (tf_est cwd (script_params d) ct) = [''keras'']
       \<and> est_compute_target (tf_est cwd (script_params d) ct) = ct"
proof -
  have run: "snd (then_cell (cell_estimator cwd k) (cell_submit s)) =
      snd (cell_submit s (k\<lparr>var_script_params := Some (script_params d),
                            var_tf_est := Some (tf_est cwd (script_params d) ct)\<rparr>))"
    using assms by (simp add: then_cell_def cell_estimator_def)
  have sub: "submit_requests (calls (snd (cell_submit s (k\<lparr>var_script_params := Some (script_params d),
                            var_tf_est := Some (tf_est cwd (script_params d) ct)\<rparr>)))) =
      submit_requests (calls k) @ [(e, tf_est cwd (script_params d) ct)]"
    using assms
    by (simp add: cell_submit_def request_def Let_def submit_requests_append split: sum.splits)
  have fields: "est_script_params (tf_est cwd (script_params d) ct) =
           [(''--root-directory'',
               ParamRef \<lparr>dr_datastore = d, dr_path_on_datastore = ''DLWP'', dr_mode = Mount\<rparr>),
            (''--predictor-file'', ParamStr ''cfs_1979-2010_hgt-thick_300-500-700_NH_T2.nc''),
            (''--model-file'', ParamStr ''dlwp_tau-lstm''),
            (''--log-directory'', ParamStr ''logs/tau-lstm''),
            (''--temp-dir'', ParamStr ''/mnt/tmp'')]"
    by (simp add: tf_est_def script_params_def as_mount_def ds_path_def)
  show ?thesis
    using run sub fields by (simp add: tf_est_def)
qed

theorem job_descriptor_submitted_witness:
  "var_ds (fresh_kernel\<lparr>var_ds := Some demo_datastore,
        var_compute_target := Some (demo_target AmlCompute),
        var_exp := Some \<lparr>exp_workspace = demo_workspace [], exp_name = ''dlwp''\<rparr>\<rparr>) = Some demo_datastore
   \<and> var_compute_target (fresh_kernel\<lparr>var_ds := Some demo_datastore,
        var_compute_target := Some (demo_target AmlCompute),
        var_exp := Some \<lparr>exp_workspace = demo_workspace [], exp_name = ''dlwp''\<rparr>\<rparr>)
       = Some (demo_target AmlCompute)
   \<and> var_exp (fresh_kernel\<lparr>var_ds := Some demo_datastore,
        var_compute_target := Some (demo_target AmlCompute),
        var_exp := Some \<lparr>exp_workspace = demo_workspace [], exp_name = ''dlwp''\<rparr>\<rparr>)
       = Some \<lparr>exp_workspace = demo_workspace [], exp_name = ''dlwp''\<rparr>
   \<and> map (\<lambda>(e, est). (map fst (est_script_params est), use_gpu est, conda_packages est, pip_packages est))
       (submit_requests (calls (snd (then_cell
         (cell_estimator ''/home/dlwp/Azure'' (fresh_kernel\<lparr>var_ds := Some demo_datastore,
            var_compute_target := Some (demo_target AmlCompute),
            var_exp := Some \<lparr>exp_workspace = demo_workspace [], exp_name = ''dlwp''\<rparr>\<rparr>))
         (cell_submit demo_sdk))))) =
       [([''--root-directory'', ''--predictor-file'', ''--model-file'', ''--log-directory'', ''--temp-dir''],
         True, [''scikit-learn'', ''netCDF4'', ''dask'', ''xarray''], [''keras''])]"
proof -
  let ?e = "\<lparr>exp_workspace = demo_workspace [], exp_name = ''dlwp''\<rparr>"
  let ?k = "fresh_kernel\<lparr>var_ds := Some demo_datastore,
        var_compute_target := Some (demo_target AmlCompute), var_exp := Some ?e\<rparr>"
  have h1: "var_ds ?k = Some demo_datastore" by simp
  have h2: "var_compute_target ?k = Some (demo_target AmlCompute)" by simp
  have h3: "var_exp ?k = Some ?e" by simp
  have c: "calls ?k = []" by (simp add: fresh_kernel_def)
  show ?thesis
    using job_descriptor_submitted [OF h1 h2 h3, of "''/home/dlwp/Azure''" demo_sdk] h1 h2 h3 c
    by simp
qed

subsection \<open>Environment variables and their fallbacks\<close>

text \<open>
  C6, as the specification states it: every environment variable the notebook reads,
  the subscription id among them, has a literal fallback. Line 45 reads
  \<open>AZURE_SUBSCRIPTION_ID\<close> with the one-argument \<open>os.environ.get\<close>: with the variable
  unset the value is \<open>None\<close>, and \<open>None\<close> is what \<open>Workspace.get\<close> receives.
\<close>

theorem subscription_id_has_no_literal_fallback:
  "map_of ([] :: environ) ''AZURE_SUBSCRIPTION_ID'' = None
   \<and> subscription_id [] = PyNone
   \<and> calls (snd (cell_workspace demo_sdk [] fresh_kernel)) =
       [Workspace_get_call ''dlwp-ml-1'' PyNone ''DLWP'']"
  by (simp add: subscription_id_def os_environ_get_def cell_workspace_def request_def
      fresh_kernel_def demo_sdk_def)

text \<open>
  C6, amended. Each of the four compute-cluster variables (cluster name, minimum nodes,
  maximum nodes, VM size) is read with a literal fallback, used when that variable is
  unset, whatever else the environment holds. The subscription id is read without a
  fallback: when it is unset, \<open>Workspace.get\<close> is called with \<open>None\<close>.
\<close>

theorem environment_fallbacks:
  "(map_of env ''AML_COMPUTE_CLUSTER_NAME'' = None \<longrightarrow>
      var_compute_name (snd (cell_compute s env k)) = Some (PyStr ''dlwp-compute-1''))
   \<and> (map_of env ''AML_COMPUTE_CLUSTER_MIN_NODES'' = None \<longrightarrow>
      var_compute_min_nodes (snd (cell_compute s env k)) = Some (PyInt 0))
   \<and> (map_of env ''AML_COMPUTE_CLUSTER_MAX_NODES'' = None \<longrightarrow>
      var_compute_max_nodes (snd (cell_compute s env k)) = Some (PyInt 2))
   \<and> (map_of env ''AML_COMPUTE_CLUSTER_SKU'' = None \<longrightarrow>
      var_vm_size (snd (cell_compute s env k)) = Some (PyStr ''STANDARD_NV6''))
   \<and> (map_of env ''AZURE_SUBSCRIPTION_ID'' = None \<longrightarrow>
      calls (snd (cell_workspace s env k)) =
        calls k @ [Workspace_get_call ''dlwp-ml-1'' PyNone ''DLWP''])"
proof -
  have vars: "var_compute_name (snd (cell_compute s env k)) = Some (compute_name env)
      \<and> var_compute_min_nodes (snd (cell_compute s env k)) = Some (compute_min_nodes env)
      \<and> var_compute_max_nodes (snd (cell_compute s env k)) = Some (compute_max_nodes env)
      \<and> var_vm_size (snd (cell_compute s env k)) = Some (vm_size env)"
    by (simp add: cell_compute_def assign_config_def print_def request_def Let_def
        split: option.splits sum.splits)
  have ws: "calls (snd (cell_workspace s env k)) =
      calls k @ [Workspace_get_call ''dlwp-ml-1'' (subscription_id env) ''DLWP'']"
    by (simp add: cell_workspace_def request_def Let_def split: sum.splits)
  show ?thesis
    using vars ws by (simp add: config_defs subscription_id_def)
qed

theorem environment_fallbacks_witness:
  "map_of [(''AML_COMPUTE_CLUSTER_MIN_NODES'', ''1'')] ''AML_COMPUTE_CLUSTER_NAME'' = None
   \<and> map_of [(''AML_COMPUTE_CLUSTER_MIN_NODES'', ''1'')] ''AML_COMPUTE_CLUSTER_MAX_NODES'' = None
   \<and> map_of [(''AML_COMPUTE_CLUSTER_MIN_NODES'', ''1'')] ''AML_COMPUTE_CLUSTER_SKU'' = None
   \<and> map_of [(''AML_COMPUTE_CLUSTER_MIN_NODES'', ''1'')] ''AZURE_SUBSCRIPTION_ID'' = None
   \<and> map_of ([] :: environ) ''AML_COMPUTE_CLUSTER_MIN_NODES'' = None
   \<and> var_compute_name (snd (cell_compute demo_sdk [(''AML_COMPUTE_CLUSTER_MIN_NODES'', ''1'')] fresh_kernel))
       = Some (PyStr ''dlwp-compute-1'')
   \<and> var_compute_min_nodes (snd (cell_compute demo_sdk [] fresh_kernel)) = Some (PyInt 0)
   \<and> var_compute_max_nodes (snd (cell_compute demo_sdk [(''AML_COMPUTE_CLUSTER_MIN_NODES'', ''1'')] fresh_kernel))
       = Some (PyInt 2)
   \<and> var_vm_size (snd (cell_compute demo_sdk [(''AML_COMPUTE_CLUSTER_MIN_NODES'', ''1'')] fresh_kernel))
       = Some (PyStr ''STANDARD_NV6'')
   \<and> calls (snd (cell_workspace demo_sdk [(''AML_COMPUTE_CLUSTER_MIN_NODES'', ''1'')] fresh_kernel))
       = [Workspace_get_call ''dlwp-ml-1'' PyNone ''DLWP'']"
proof -
  let ?env = "[(''AML_COMPUTE_CLUSTER_MIN_NODES'', ''1'')]"
  have c: "calls fresh_kernel = []" by (simp add: fresh_kernel_def)
  show ?thesis
    using environment_fallbacks [of ?env demo_sdk fresh_kernel]
      environment_fallbacks [of "[]" demo_sdk fresh_kernel] c
    by simp
qed

lemma cancel_requests_append:
  "cancel_requests (xs @ ys) = cancel_requests xs @ cancel_requests ys"
  by (induction xs rule: cancel_requests.induct) simp_all

subsection \<open>No cell uploads data\<close>

lemma then_cell_uploads:
  assumes "upload_requests (calls (snd r)) = u"
    and "\<And>k. upload_requests (calls (snd (c k))) = upload_requests (calls k)"
  shows "upload_requests (calls (snd (then_cell r c))) = u"
  using assms by (simp add: then_cell_def split: option.splits)

lemma cell_workspace_uploads:
  "upload_requests (calls (snd (cell_workspace s env k))) = upload_requests (calls k)"
  by (simp add: cell_workspace_def request_def Let_def upload_requests_append split: sum.splits)

lemma cell_compute_uploads:
  "upload_requests (calls (snd (cell_compute s env k))) = upload_requests (calls k)"
  by (simp add: cell_compute_def assign_config_def print_def request_def Let_def
      upload_requests_append split: option.splits sum.splits)

lemma cell_datastore_uploads:
  "upload_requests (calls (snd (cell_datastore k))) = upload_requests (calls k)"
  by (simp add: cell_datastore_def print_def request_def Let_def upload_requests_append
      split: option.splits)

lemma cell_experiment_uploads:
  "upload_requests (calls (snd (cell_experiment k))) = upload_requests (calls k)"
  by (simp add: cell_experiment_def Let_def split: option.splits)

lemma cell_estimator_uploads:
  "upload_requests (calls (snd (cell_estimator cwd k))) = upload_requests (calls k)"
  by (simp add: cell_estimator_def Let_def split: option.splits)

lemma cell_submit_uploads:
  "upload_requests (calls (snd (cell_submit s k))) = upload_requests (calls k)"
  by (simp add: cell_submit_def request_def Let_def upload_requests_append
      split: option.splits sum.splits)

lemma cell_cancel_uploads:
  "upload_requests (calls (snd (cell_cancel s k))) = upload_requests (calls k)"
  by (simp add: cell_cancel_def request_def Let_def upload_requests_append
      split: option.splits sum.splits)

lemma run_all_uploads:
  "upload_requests (calls (snd (run_all s env cwd k))) = upload_requests (calls k)"
  unfolding run_all_def
  by (intro then_cell_uploads cell_workspace_uploads cell_compute_uploads cell_datastore_uploads
      cell_experiment_uploads cell_estimator_uploads cell_submit_uploads cell_cancel_uploads)

subsection \<open>Waiting for the new cluster\<close>

text \<open>
  C7. When the cell has sent a creation request and the client library has returned the
  new target, the next and last request of the cell is the wait on that target, with
  \<open>show_output=True\<close>, \<open>min_node_count=None\<close> and the fixed \<open>timeout_in_minutes=10\<close>.
  The cell never looks at what the wait reports: whatever lines the wait prints (a
  timeout with the minimum not reached among them), the cell prints them, ends without
  an exception and leaves \<open>compute_target\<close> bound to the new target. The cell fails
  only when the wait call itself raises.
\<close>

theorem provisioner_waits_after_create:
  assumes "var_ws k = Some w"
    and "dict_get (compute_targets w) (compute_name env) = None"
    and "ComputeTarget_create s w (compute_name env) (provisioning_config env) = Inr ct"
  shows "calls (snd (cell_compute s env k)) =
           calls k @ [ComputeTarget_create_call w (compute_name env) (provisioning_config env),
                      wait_for_completion_call ct True PyNone 10]
       \<and> var_compute_target (snd (cell_compute s env k)) = Some ct
       \<and> fst (cell_compute s env k) =
           (case wait_for_completion s ct True PyNone 10 of
              Inl err \<Rightarrow> Some err | Inr report \<Rightarrow> None)
       \<and> stdout (snd (cell_compute s env k)) =
           stdout k @ [''creating a new compute target ('' @ py_str (compute_name env) @ '')''] @
             (case wait_for_completion s ct True PyNone 10 of
                Inl err \<Rightarrow> [] | Inr report \<Rightarrow> report)"
  using assms
  by (simp add: cell_compute_def assign_config_def print_def request_def Let_def
      split: sum.splits)

theorem provisioner_waits_after_create_witness:
  "var_ws (fresh_kernel\<lparr>var_ws := Some (demo_workspace [])\<rparr>) = Some (demo_workspace [])
   \<and> dict_get (compute_targets (demo_workspace [])) (compute_name []) = None
   \<and> ComputeTarget_create demo_sdk (demo_workspace []) (compute_name []) (provisioning_config [])
       = Inr (demo_target AmlCompute)
   \<and> fst (cell_compute demo_sdk [] (fresh_kernel\<lparr>var_ws := Some (demo_workspace [])\<rparr>)) = None
   \<and> calls (snd (cell_compute demo_sdk [] (fresh_kernel\<lparr>var_ws := Some (demo_workspace [])\<rparr>))) =
       [ComputeTarget_create_call (demo_workspace []) (PyStr ''dlwp-compute-1'')
          \<lparr>pc_vm_size = PyStr ''STANDARD_NV6'', pc_min_nodes = PyInt 0, pc_max_nodes = PyInt 2\<rparr>,
        wait_for_completion_call (demo_target AmlCompute) True PyNone 10]
   \<and> stdout (snd (cell_compute demo_sdk [] (fresh_kernel\<lparr>var_ws := Some (demo_workspace [])\<rparr>))) =
       [''creating a new compute target (dlwp-compute-1)'', ''Wait timeout has been reached'']
   \<and> var_compute_target (snd (cell_compute demo_sdk [] (fresh_kernel\<lparr>var_ws := Some (demo_workspace [])\<rparr>)))
       = Some (demo_target AmlCompute)"
proof -
  let ?w = "demo_workspace []"
  let ?k = "fresh_kernel\<lparr>var_ws := Some ?w\<rparr>"
  have h1: "var_ws ?k = Some ?w" by simp
  have h2: "dict_get (compute_targets ?w) (compute_name []) = None"
    by (simp add: demo_workspace_def config_defs)
  have h3: "ComputeTarget_create demo_sdk ?w (compute_name []) (provisioning_config [])
      = Inr (demo_target AmlCompute)"
    by (simp add: demo_sdk_def)
  have h4: "wait_for_completion demo_sdk (demo_target AmlCompute) True PyNone 10
      = Inr [''Wait timeout has been reached'']"
    by (simp add: demo_sdk_def)
  have c: "calls ?k = [] \<and> stdout ?k = []" by (simp add: fresh_kernel_def)
  show ?thesis
    using provisioner_waits_after_create [OF h1 h2 h3] h1 h2 h3 h4 c
    by (simp add: config_defs)
qed

subsection \<open>Cancelling the run\<close>

text \<open>
  C8. For every run that the submission has returned, the cancellation cell sends
  exactly one cancellation request, for that run, and it is the last request: no wait
  and no status request follows it. The cell ends as that one call ends.
\<close>

theorem cancel_is_one_request:
  assumes "var_exp k = Some e"
    and "var_tf_est k = Some est"
    and "Experiment_submit s e est = Inr r"
  shows "var_run (snd (cell_submit s k)) = Some r
       \<and> calls (snd (then_cell (cell_submit s k) (cell_cancel s))) =
           calls k @ [submit_call e est, cancel_call r]
       \<and> cancel_requests (calls (snd (then_cell (cell_submit s k) (cell_cancel s)))) =
           cancel_requests (calls k) @ [r]
       \<and> fst (then_cell (cell_submit s k) (cell_cancel s)) =
           (case Run_cancel s r of Inl err \<Rightarrow> Some err | Inr u \<Rightarrow> None)"
  using assms
  by (simp add: then_cell_def cell_submit_def cell_cancel_def request_def Let_def
      cancel_requests_append split: sum.splits)

theorem cancel_is_one_request_witness:
  "var_exp (fresh_kernel\<lparr>var_exp := Some \<lparr>exp_workspace = demo_workspace [], exp_name = ''dlwp''\<rparr>,
        var_tf_est := Some (tf_est ''/home/dlwp/Azure'' (script_params demo_datastore) (demo_target AmlCompute))\<rparr>)
     = Some \<lparr>exp_workspace = demo_workspace [], exp_name = ''dlwp''\<rparr>
   \<and> var_tf_est (fresh_kernel\<lparr>var_exp := Some \<lparr>exp_workspace = demo_workspace [], exp_name = ''dlwp''\<rparr>,
        var_tf_est := Some (tf_est ''/home/dlwp/Azure'' (script_params demo_datastore) (demo_target AmlCompute))\<rparr>)
     = Some (tf_est ''/home/dlwp/Azure'' (script_params demo_datastore) (demo_target AmlCompute))
   \<and> Experiment_submit demo_sdk \<lparr>exp_workspace = demo_workspace [], exp_name = ''dlwp''\<rparr>
        (tf_est ''/home/dlwp/Azure'' (script_params demo_datastore) (demo_target AmlCompute)) = Inr demo_run
   \<and> cancel_requests (calls (snd (then_cell
        (cell_submit demo_sdk
          (fresh_kernel\<lparr>var_exp := Some \<lparr>exp_workspace = demo_workspace [], exp_name = ''dlwp''\<rparr>,
             var_tf_est := Some (tf_est ''/home/dlwp/Azure'' (script_params demo_datastore) (demo_target AmlCompute))\<rparr>))
        (cell_cancel demo_sdk)))) = [demo_run]
   \<and> fst (then_cell
        (cell_submit demo_sdk
          (fresh_kernel\<lparr>var_exp := Some \<lparr>exp_workspace = demo_workspace [], exp_name = ''dlwp''\<rparr>,
             var_tf_est := Some (tf_est ''/home/dlwp/Azure'' (script_params demo_datastore) (demo_target AmlCompute))\<rparr>))
        (cell_cancel demo_sdk)) = None"
proof -
  let ?e = "\<lparr>exp_workspace = demo_workspace [], exp_name = ''dlwp''\<rparr>"
  let ?est = "tf_est ''/home/dlwp/Azure'' (script_params demo_datastore) (demo_target AmlCompute)"
  let ?k = "fresh_kernel\<lparr>var_exp := Some ?e, var_tf_est := Some ?est\<rparr>"
  have h1: "var_exp ?k = Some ?e" by simp
  have h2: "var_tf_est ?k = Some ?est" by simp
  have h3: "Experiment_submit demo_sdk ?e ?est = Inr demo_run" by (simp add: demo_sdk_def)
  have c: "calls ?k = []" by (simp add: fresh_kernel_def)
  have d: "Run_cancel demo_sdk demo_run = Inr ()" by (simp add: demo_sdk_def)
  show ?thesis
    using cancel_is_one_request [OF h1 h2 h3] h1 h2 h3 c d by simp
qed

text \<open>
  C9. With \<open>ws\<close> bound, the datastore cell binds \<open>ds\<close> to the workspace's default
  datastore with one request for the descriptor and no upload; the estimator cell then
  builds the mount reference to the folder \<open>DLWP\<close> on that datastore as the value of
  \<open>--root-directory\<close> without any request. No run of the whole notebook, from any
  kernel state and whatever the client library answers, sends an upload request.
\<close>

theorem datastore_reference_without_upload:
  assumes "var_ws k = Some w"
  shows "fst (cell_datastore k) = None
       \<and> var_ds (snd (cell_datastore k)) = Some (default_datastore w)
       \<and> calls (snd (cell_datastore k)) = calls k @ [get_default_datastore_call w]
       \<and> upload_requests (calls (snd (cell_datastore k))) = upload_requests (calls k)
       \<and> var_script_params (snd (cell_estimator cwd (snd (cell_datastore k)))) =
           Some (script_params (default_datastore w))
       \<and> map_of (script_params (default_datastore w)) ''--root-directory'' =
           Some (ParamRef \<lparr>dr_datastore = default_datastore w, dr_path_on_datastore = ''DLWP'',
                           dr_mode = Mount\<rparr>)
       \<and> calls (snd (cell_estimator cwd (snd (cell_datastore k)))) = calls (snd (cell_datastore k))
       \<and> upload_requests (calls (snd (run_all s env cwd k0))) = upload_requests (calls k0)"
proof -
  have ds: "cell_datastore k =
      (None, print (datastore_type (default_datastore w) @ '' '' @ account_name (default_datastore w)
                      @ '' '' @ container_name (default_datastore w))
               ((request (get_default_datastore_call w) k)\<lparr>var_ds := Some (default_datastore w)\<rparr>))"
    using assms by (simp add: cell_datastore_def Let_def)
  have est: "var_script_params (snd (cell_estimator cwd (snd (cell_datastore k)))) =
        Some (script_params (default_datastore w))
      \<and> calls (snd (cell_estimator cwd (snd (cell_datastore k)))) = calls (snd (cell_datastore k))"
    by (simp add: ds cell_estimator_def print_def request_def Let_def split: option.splits)
  have ref: "map_of (script_params (default_datastore w)) ''--root-directory'' =
      Some (ParamRef \<lparr>dr_datastore = default_datastore w, dr_path_on_datastore = ''DLWP'',
                      dr_mode = Mount\<rparr>)"
    by (simp add: script_params_def as_mount_def ds_path_def)
  show ?thesis
    using est ref run_all_uploads [of s env cwd k0] cell_datastore_uploads [of k]
    by (simp add: ds print_def request_def)
qed

theorem datastore_reference_without_upload_witness:
  "var_ws (fresh_kernel\<lparr>var_ws := Some (demo_workspace [])\<rparr>) = Some (demo_workspace [])
   \<and> var_ds (snd (cell_datastore (fresh_kernel\<lparr>var_ws := Some (demo_workspace [])\<rparr>))) = Some demo_datastore
   \<and> calls (snd (cell_datastore (fresh_kernel\<lparr>var_ws := Some (demo_workspace [])\<rparr>))) =
       [get_default_datastore_call (demo_workspace [])]
   \<and> map_of (script_params demo_datastore) ''--root-directory'' =
       Some (ParamRef \<lparr>dr_datastore = demo_datastore, dr_path_on_datastore = ''DLWP'', dr_mode = Mount\<rparr>)
   \<and> upload_requests (calls (snd (run_all demo_sdk [] ''/home/dlwp/Azure'' fresh_kernel))) = []"
proof -
  let ?w = "demo_workspace []"
  let ?k = "fresh_kernel\<lparr>var_ws := Some ?w\<rparr>"
  have h1: "var_ws ?k = Some ?w" by simp
  have c: "calls ?k = [] \<and> calls fresh_kernel = []" by (simp add: fresh_kernel_def)
  have d: "default_datastore ?w = demo_datastore" by (simp add: demo_workspace_def)
  show ?thesis
    using datastore_reference_without_upload [OF h1, of "''/home/dlwp/Azure''" demo_sdk "[]" fresh_kernel]
      h1 c d
    by simp
qed

subsection \<open>The type of the node bounds\<close>

text \<open>
  C10. In the creation request, the minimum and maximum node counts are the raw strings
  of the environment when the variables are set, with no conversion to an integer, and
  the integers \<open>0\<close> and \<open>2\<close> when they are unset.
\<close>

theorem node_bounds_raw_strings:
  assumes "var_ws k = Some w"
    and "dict_get (compute_targets w) (compute_name env) = None"
  shows "creation_requests (calls (snd (cell_compute s env k))) =
           creation_requests (calls k) @ [(w, compute_name env, provisioning_config env)]
       \<and> pc_min_nodes (provisioning_config env) =
           (case map_of env ''AML_COMPUTE_CLUSTER_MIN_NODES'' of
              None \<Rightarrow> PyInt 0 | Some v \<Rightarrow> PyStr v)
       \<and> pc_max_nodes (provisioning_config env) =
           (case map_of env ''AML_COMPUTE_CLUSTER_MAX_NODES'' of
              None \<Rightarrow> PyInt 2 | Some v \<Rightarrow> PyStr v)"
proof -
  have req: "creation_requests (calls (snd (cell_compute s env k))) =
      creation_requests (calls k) @ [(w, compute_name env, provisioning_config env)]"
    using assms
    by (simp add: cell_compute_def assign_config_def print_def request_def Let_def
        creation_requests_append split: sum.splits)
  have lo: "pc_min_nodes (provisioning_config env) =
      (case map_of env ''AML_COMPUTE_CLUSTER_MIN_NODES'' of None \<Rightarrow> PyInt 0 | Some v \<Rightarrow> PyStr v)"
    by (simp add: provisioning_config_def compute_min_nodes_def os_environ_get_def)
  have hi: "pc_max_nodes (provisioning_config env) =
      (case map_of env ''AML_COMPUTE_CLUSTER_MAX_NODES'' of None \<Rightarrow> PyInt 2 | Some v \<Rightarrow> PyStr v)"
    by (simp add: provisioning_config_def compute_max_nodes_def os_environ_get_def)
  from req lo hi show ?thesis by simp
qed

theorem node_bounds_raw_strings_witness:
  "var_ws (fresh_kernel\<lparr>var_ws := Some (demo_workspace [])\<rparr>) = Some (demo_workspace [])
   \<and> dict_get (compute_targets (demo_workspace []))
        (compute_name [(''AML_COMPUTE_CLUSTER_MIN_NODES'', ''1'')]) = None
   \<and> map (\<lambda>(w, n, c). (pc_min_nodes c, pc_max_nodes c))
       (creation_requests (calls (snd (cell_compute demo_sdk [(''AML_COMPUTE_CLUSTER_MIN_NODES'', ''1'')]
          (fresh_kernel\<lparr>var_ws := Some (demo_workspace [])\<rparr>))))) =
       [(PyStr ''1'', PyInt 2)]"
proof -
  let ?env = "[(''AML_COMPUTE_CLUSTER_MIN_NODES'', ''1'')]"
  let ?w = "demo_workspace []"
  let ?k = "fresh_kernel\<lparr>var_ws := Some ?w\<rparr>"
  have h1: "var_ws ?k = Some ?w" by simp
  have h2: "dict_get (compute_targets ?w) (compute_name ?env) = None"
    by (simp add: demo_workspace_def config_defs)
  have c: "calls ?k = []" by (simp add: fresh_kernel_def)
  show ?thesis
    using node_bounds_raw_strings [OF h1 h2, of demo_sdk] h1 h2 c by simp
qed

subsection \<open>The whole notebook on the concrete workspace\<close>

text \<open>
  Run from a fresh kernel against a workspace that already has the cluster, the cells
  print the two lines that the notebook's saved outputs show, and end with the run
  bound. Against a workspace without the cluster, the requests are the six calls of the
  notebook in order.
\<close>

lemma notebook_saved_output:
  "fst (run_all
         (demo_sdk\<lparr>Workspace_get :=
            (\<lambda>n sub g. Inr (demo_workspace [(''dlwp-compute-1'', demo_target AmlCompute)]))\<rparr>)
         [] ''/home/dlwp/Azure'' fresh_kernel) = None
   \<and> stdout (snd (run_all
         (demo_sdk\<lparr>Workspace_get :=
            (\<lambda>n sub g. Inr (demo_workspace [(''dlwp-compute-1'', demo_target AmlCompute)]))\<rparr>)
         [] ''/home/dlwp/Azure'' fresh_kernel)) =
       [''found compute target (dlwp-compute-1)'',
        ''AzureBlob dlwpml10633119839 azureml-blobstore-ba10431a-baca-4271-b9e8-283bd838c07e'']
   \<and> var_run (snd (run_all
         (demo_sdk\<lparr>Workspace_get :=
            (\<lambda>n sub g. Inr (demo_workspace [(''dlwp-compute-1'', demo_target AmlCompute)]))\<rparr>)
         [] ''/home/dlwp/Azure'' fresh_kernel)) = Some demo_run"
  by (simp add: run_all_def then_cell_def cell_workspace_def cell_compute_def cell_datastore_def
      cell_experiment_def cell_estimator_def cell_submit_def cell_cancel_def assign_config_def
      request_def print_def Let_def truthy_def subscription_id_def config_defs experiment_name_def
      demo_sdk_def demo_workspace_def demo_target_def demo_datastore_def fresh_kernel_def)

lemma notebook_fresh_cluster:
  "map (\<lambda>c. case c of Workspace_get_call n s g \<Rightarrow> ''Workspace.get''
               | ComputeTarget_create_call w n c \<Rightarrow> ''ComputeTarget.create''
               | wait_for_completion_call ct b m t \<Rightarrow> ''wait_for_completion''
               | get_default_datastore_call w \<Rightarrow> ''get_default_datastore''
               | upload_call d a b c e \<Rightarrow> ''upload''
               | submit_call e est \<Rightarrow> ''submit''
               | cancel_call r \<Rightarrow> ''cancel'')
     (calls (snd (run_all demo_sdk [] ''/home/dlwp/Azure'' fresh_kernel))) =
     [''Workspace.get'', ''ComputeTarget.create'', ''wait_for_completion'',
      ''get_default_datastore'', ''submit'', ''cancel'']"
  by (simp add: run_all_def then_cell_def cell_workspace_def cell_compute_def cell_datastore_def
      cell_experiment_def cell_estimator_def cell_submit_def cell_cancel_def assign_config_def
      request_def print_def Let_def truthy_def subscription_id_def config_defs experiment_name_def
      demo_sdk_def demo_workspace_def demo_target_def demo_datastore_def fresh_kernel_def)

end
